theory Spec2Isabelle
  imports Main
begin

section \<open>The QuickSight account subscription resource\<close>

text \<open>
  A shallow embedding of \<^verbatim>\<open>internal/service/quicksight/account_subscription.go\<close>.
  Go pointers are options (\<open>None\<close> is nil), a Go pair \<open>(result, error)\<close> is a pair of
  options, a nil pointer dereference is the outcome \<open>Panic\<close>, and the calls made on the
  remote client are appended to a log, so that "the wait is not invoked" and "a read-back
  is performed" are statements about that log.
\<close>

subsection \<open>Requests, responses and errors\<close>

record DescribeAccountSubscriptionInput =
  AwsAccountId :: "string option"

record DeleteAccountSubscriptionInput =
  AwsAccountId :: "string option"

record CreateAccountSubscriptionInput =
  AwsAccountId :: "string option"
  AccountName :: "string option"
  AuthenticationMethod :: string
  Edition :: string
  NotificationEmail :: "string option"
  ActiveDirectoryName :: "string option"
  AdminGroup :: "string list option"
  AuthorGroup :: "string list option"
  ReaderGroup :: "string list option"
  ContactNumber :: "string option"
  DirectoryId :: "string option"
  EmailAddress :: "string option"
  FirstName :: "string option"
  IAMIdentityCenterInstanceArn :: "string option"
  LastName :: "string option"
  Realm :: "string option"

text \<open>\<^verbatim>\<open>awstypes.AccountInfo\<close>: the fields the resource reads.\<close>

record AccountInfo =
  AccountName :: "string option"
  AccountSubscriptionStatus :: "string option"
  Edition :: string
  IAMIdentityCenterInstanceArn :: "string option"
  NotificationEmail :: "string option"

record SignupResponse =
  accountName :: "string option"

record CreateAccountSubscriptionOutput =
  SignupResponse :: "SignupResponse option"

record DescribeAccountSubscriptionOutput =
  AccountInfo :: "AccountInfo option"

text \<open>
  The errors that occur in the file: the remote not-found fault, any other remote fault,
  \<^verbatim>\<open>retry.NotFoundError{LastError, LastRequest}\<close>, the empty-result error made
  by \<^verbatim>\<open>tfresource.NewEmptyResultError(in)\<close>, and \<^verbatim>\<open>errors.New\<close>.
\<close>

datatype error =
    ResourceNotFoundException string
  | OtherFault string
  | NotFoundError "error option" DescribeAccountSubscriptionInput
  | EmptyResultError DescribeAccountSubscriptionInput
  | ErrorsNew string

text \<open>
  Modelled from the spec: \<^verbatim>\<open>errs.IsA[*awstypes.ResourceNotFoundException]\<close>
  (package \<^verbatim>\<open>internal/errs\<close>) recognises the remote "resource not found" fault,
  also when it is the wrapped \<^verbatim>\<open>LastError\<close> of a structured not-found error;
  a nil error is no fault.
\<close>

fun isResourceNotFoundException :: "error \<Rightarrow> bool" where
  "isResourceNotFoundException (ResourceNotFoundException m) = True"
| "isResourceNotFoundException (NotFoundError None r) = False"
| "isResourceNotFoundException (NotFoundError (Some e) r) = isResourceNotFoundException e"
| "isResourceNotFoundException (OtherFault m) = False"
| "isResourceNotFoundException (EmptyResultError r) = False"
| "isResourceNotFoundException (ErrorsNew m) = False"

fun errs_IsA_ResourceNotFoundException :: "error option \<Rightarrow> bool" where
  "errs_IsA_ResourceNotFoundException None = False"
| "errs_IsA_ResourceNotFoundException (Some e) = isResourceNotFoundException e"

subsection \<open>Diagnostics\<close>

datatype action =
    ErrActionCreating
  | ErrActionWaitingForCreation
  | ErrActionReading
  | ErrActionDeleting
  | ErrActionWaitingForDeletion

datatype Diagnostic = DiagError string action string string error

type_synonym Diagnostics = "Diagnostic list"

definition names_QuickSight :: string where
  "names_QuickSight = ''QuickSight''"

definition ResNameAccountSubscription :: string where
  "ResNameAccountSubscription = ''Account Subscription''"

text \<open>
  Modelled from the spec: \<^verbatim>\<open>create.AppendDiagError\<close> (package
  \<^verbatim>\<open>internal/create\<close>) appends one error diagnostic carrying the service, the
  action, the resource type, the identifier and the error.
\<close>

definition AppendDiagError ::
  "Diagnostics \<Rightarrow> string \<Rightarrow> action \<Rightarrow> string \<Rightarrow> string \<Rightarrow> error \<Rightarrow> Diagnostics" where
  "AppendDiagError diags service act resource ident err =
     diags @ [DiagError service act resource ident err]"

subsection \<open>Status strings\<close>

definition statusCreated :: string where
  "statusCreated = ''ACCOUNT_CREATED''"

definition statusOk :: string where
  "statusOk = ''OK''"

definition statusSignupAttemptInProgress :: string where
  "statusSignupAttemptInProgress = ''SIGNUP_ATTEMPT_IN_PROGRESS''"

definition statusUnsuscribeInProgress :: string where
  "statusUnsuscribeInProgress = ''UNSUBSCRIBE_IN_PROGRESS''"

definition statusUnsuscribed :: string where
  "statusUnsuscribed = ''UNSUBSCRIBED''"

subsection \<open>Outcomes\<close>

text \<open>
  Which pointer was nil when the code dereferenced it: the fetched \<^verbatim>\<open>out\<close>
  (\<^verbatim>\<open>out.AccountSubscriptionStatus\<close> and the other field reads), or the status
  field itself (\<^verbatim>\<open>*out.AccountSubscriptionStatus\<close>).
\<close>

datatype nil_deref = Deref_out | Deref_out_AccountSubscriptionStatus

datatype 'a outcome = Panic nil_deref | Return 'a

subsection \<open>The remote client, the provider data and what the framework supplies\<close>

record Client =
  CreateAccountSubscription ::
    "CreateAccountSubscriptionInput \<Rightarrow> CreateAccountSubscriptionOutput option \<times> error option"
  DescribeAccountSubscription ::
    "DescribeAccountSubscriptionInput \<Rightarrow> DescribeAccountSubscriptionOutput option \<times> error option"
  DeleteAccountSubscription ::
    "DeleteAccountSubscriptionInput \<Rightarrow> error option"

record AWSClient =
  AccountID :: string
  QuickSightClient :: Client

text \<open>\<^verbatim>\<open>retry.StateChangeConf\<close>, with the fields the file sets; an unset Go int is 0.\<close>

record StateChangeConf =
  Pending :: "string list"
  Target :: "string list"
  Refresh :: "unit \<Rightarrow> (AccountInfo option \<times> string \<times> error option) outcome"
  Timeout :: int
  NotFoundChecks :: int
  ContinuousTargetOccurence :: int

text \<open>
  The collaborators that live outside the file are parameters of the model:
  the polling utility \<^verbatim>\<open>WaitForStateContext\<close> of the plugin framework (its raw
  output is \<open>None\<close> when it is not an account info), \<^verbatim>\<open>flex.ExpandStringValueList\<close>,
  and \<^verbatim>\<open>tfresource.NotFound\<close> on a non-nil error.
\<close>

record externals =
  WaitForStateContext :: "StateChangeConf \<Rightarrow> AccountInfo option \<times> error option"
  ExpandStringValueList :: "string list \<Rightarrow> string list"
  isNotFound :: "error \<Rightarrow> bool"

text \<open>\<^verbatim>\<open>tfresource.NotFound(err)\<close>: a nil error is never a not-found condition.\<close>

fun tfresource_NotFound :: "externals \<Rightarrow> error option \<Rightarrow> bool" where
  "tfresource_NotFound ext None = False"
| "tfresource_NotFound ext (Some e) = isNotFound ext e"

subsection \<open>Resource data\<close>

text \<open>
  \<^verbatim>\<open>schema.ResourceData\<close>: the id, the new-resource mark, the two timeouts the file
  asks for, and one field per schema attribute; an attribute that the configuration
  omits is \<open>None\<close>.
\<close>

record ResourceData =
  Id :: string
  IsNewResource :: bool
  TimeoutCreate :: int
  TimeoutDelete :: int
  account_name :: "string option"
  account_subscription_status :: "string option"
  active_directory_name :: "string option"
  admin_group :: "string list option"
  authentication_method :: "string option"
  author_group :: "string list option"
  aws_account_id :: "string option"
  contact_number :: "string option"
  directory_id :: "string option"
  edition :: "string option"
  email_address :: "string option"
  first_name :: "string option"
  iam_identity_center_instance_arn :: "string option"
  last_name :: "string option"
  notification_email :: "string option"
  reader_group :: "string list option"
  realm :: "string option"

text \<open>
  Modelled from the spec: \<^verbatim>\<open>d.Get\<close> reads an attribute, the zero value when it is
  absent; \<^verbatim>\<open>d.GetOk\<close> also tells whether the attribute is present and non-empty.
\<close>

fun Get_string :: "string option \<Rightarrow> string" where
  "Get_string None = []"
| "Get_string (Some v) = v"

fun GetOk_string :: "string option \<Rightarrow> string \<times> bool" where
  "GetOk_string None = ([], False)"
| "GetOk_string (Some v) = (v, v \<noteq> [])"

fun GetOk_list :: "string list option \<Rightarrow> string list \<times> bool" where
  "GetOk_list None = ([], False)"
| "GetOk_list (Some v) = (v, v \<noteq> [])"

text \<open>\<^verbatim>\<open>aws.ToString\<close>: the empty string for a nil pointer.\<close>

fun aws_ToString :: "string option \<Rightarrow> string" where
  "aws_ToString None = []"
| "aws_ToString (Some v) = v"

subsection \<open>The state of one operation\<close>

datatype call =
    CallCreateAccountSubscription CreateAccountSubscriptionInput
  | CallDescribeAccountSubscription DescribeAccountSubscriptionInput
  | CallDeleteAccountSubscription DeleteAccountSubscriptionInput
  | CallWaitCreated string
  | CallWaitDeleted string

record state =
  d :: ResourceData
  calls :: "call list"

definition SetId :: "string \<Rightarrow> state \<Rightarrow> state" where
  "SetId v s = s\<lparr>d := (d s)\<lparr>Id := v\<rparr>\<rparr>"

definition logCall :: "call \<Rightarrow> state \<Rightarrow> state" where
  "logCall c s = s\<lparr>calls := calls s @ [c]\<rparr>"

subsection \<open>Lookup and status refresh\<close>

definition findAccountSubscriptionByID ::
  "Client \<Rightarrow> string \<Rightarrow> AccountInfo option \<times> error option" where
  "findAccountSubscriptionByID conn ident =
     (let inp = \<lparr>DescribeAccountSubscriptionInput.AwsAccountId = Some ident\<rparr>;
          (out, err) = DescribeAccountSubscription conn inp
      in if errs_IsA_ResourceNotFoundException err then
           (None, Some (NotFoundError err inp))
         else
           (case err of
              Some e \<Rightarrow> (None, Some e)
            | None \<Rightarrow>
                (case out of
                   None \<Rightarrow> (None, Some (EmptyResultError inp))
                 | Some resp \<Rightarrow>
                     (case AccountInfo resp of
                        None \<Rightarrow> (None, Some (EmptyResultError inp))
                      | Some info \<Rightarrow> (Some info, None)))))"

definition statusAccountSubscription ::
  "externals \<Rightarrow> Client \<Rightarrow> string \<Rightarrow> unit \<Rightarrow> (AccountInfo option \<times> string \<times> error option) outcome" where
  "statusAccountSubscription ext conn ident u =
     (let (out, err) = findAccountSubscriptionByID conn ident
      in if tfresource_NotFound ext err then Return (None, [], None)
         else
           (case err of
              Some e \<Rightarrow> Return (None, [], Some e)
            | None \<Rightarrow>
                (case out of
                   None \<Rightarrow> Panic Deref_out
                 | Some info \<Rightarrow>
                     (case AccountSubscriptionStatus info of
                        None \<Rightarrow> Panic Deref_out_AccountSubscriptionStatus
                      | Some st \<Rightarrow> Return (Some info, st, None)))))"

subsection \<open>The two waits\<close>

definition createStateConf :: "externals \<Rightarrow> Client \<Rightarrow> string \<Rightarrow> int \<Rightarrow> StateChangeConf" where
  "createStateConf ext conn ident timeout =
     \<lparr>Pending = [statusSignupAttemptInProgress],
      Target = [statusCreated, statusOk],
      Refresh = statusAccountSubscription ext conn ident,
      Timeout = timeout,
      NotFoundChecks = 20,
      ContinuousTargetOccurence = 2\<rparr>"

definition deleteStateConf :: "externals \<Rightarrow> Client \<Rightarrow> string \<Rightarrow> int \<Rightarrow> StateChangeConf" where
  "deleteStateConf ext conn ident timeout =
     \<lparr>Pending = [statusCreated, statusOk, statusUnsuscribeInProgress],
      Target = [statusUnsuscribed],
      Refresh = statusAccountSubscription ext conn ident,
      Timeout = timeout,
      NotFoundChecks = 0,
      ContinuousTargetOccurence = 0\<rparr>"

definition waitAccountSubscriptionCreated ::
  "externals \<Rightarrow> Client \<Rightarrow> string \<Rightarrow> int \<Rightarrow> AccountInfo option \<times> error option" where
  "waitAccountSubscriptionCreated ext conn ident timeout =
     (let (outputRaw, err) = WaitForStateContext ext (createStateConf ext conn ident timeout)
      in case outputRaw of
           Some out \<Rightarrow> (Some out, err)
         | None \<Rightarrow> (None, err))"

definition waitAccountSubscriptionDeleted ::
  "externals \<Rightarrow> Client \<Rightarrow> string \<Rightarrow> int \<Rightarrow> AccountInfo option \<times> error option" where
  "waitAccountSubscriptionDeleted ext conn ident timeout =
     (let (outputRaw, err) = WaitForStateContext ext (deleteStateConf ext conn ident timeout)
      in case outputRaw of
           Some out \<Rightarrow> (Some out, err)
         | None \<Rightarrow> (None, err))"

subsection \<open>Read\<close>

text \<open>
  The unsubscribed check reads \<^verbatim>\<open>out.AccountSubscriptionStatus\<close> whenever the resource
  is not new and the first check did not return, before the error is looked at.
\<close>

definition resourceAccountSubscriptionRead ::
  "externals \<Rightarrow> AWSClient \<Rightarrow> state \<Rightarrow> state \<times> Diagnostics outcome" where
  "resourceAccountSubscriptionRead ext meta s =
     (let diags = [];
          conn = QuickSightClient meta;
          (out, err) = findAccountSubscriptionByID conn (Id (d s));
          s1 = logCall (CallDescribeAccountSubscription
                 \<lparr>DescribeAccountSubscriptionInput.AwsAccountId = Some (Id (d s))\<rparr>) s
      in if \<not> IsNewResource (d s1) \<and> tfresource_NotFound ext err then
           (SetId [] s1, Return diags)
         else
           (case (if \<not> IsNewResource (d s1) then
                    (case out of
                       None \<Rightarrow> Panic Deref_out
                     | Some info \<Rightarrow>
                         Return (aws_ToString (AccountSubscriptionStatus info) = statusUnsuscribed))
                  else Return False) of
              Panic p \<Rightarrow> (s1, Panic p)
            | Return True \<Rightarrow> (SetId [] s1, Return diags)
            | Return False \<Rightarrow>
                (case err of
                   Some e \<Rightarrow>
                     (s1, Return (AppendDiagError diags names_QuickSight ErrActionReading
                                    ResNameAccountSubscription (Id (d s1)) e))
                 | None \<Rightarrow>
                     (case out of
                        None \<Rightarrow> (s1, Panic Deref_out)
                      | Some info \<Rightarrow>
                          (s1\<lparr>d := (d s1)
                               \<lparr>account_name := AccountInfo.AccountName info,
                                edition := Some (AccountInfo.Edition info),
                                notification_email := AccountInfo.NotificationEmail info,
                                account_subscription_status := AccountSubscriptionStatus info,
                                iam_identity_center_instance_arn :=
                                  AccountInfo.IAMIdentityCenterInstanceArn info\<rparr>\<rparr>,
                           Return diags)))))"

subsection \<open>Create\<close>

text \<open>The account id of the request: the configured one when present, else the ambient one.\<close>

definition createAwsAccountId :: "AWSClient \<Rightarrow> ResourceData \<Rightarrow> string" where
  "createAwsAccountId meta rd =
     (case GetOk_string (aws_account_id rd) of
        (v, True) \<Rightarrow> v
      | (v, False) \<Rightarrow> AccountID meta)"

definition setString ::
  "string option \<Rightarrow> (string option \<Rightarrow> CreateAccountSubscriptionInput \<Rightarrow> CreateAccountSubscriptionInput)
     \<Rightarrow> CreateAccountSubscriptionInput \<Rightarrow> CreateAccountSubscriptionInput" where
  "setString attr upd inp =
     (case GetOk_string attr of
        (v, True) \<Rightarrow> upd (Some v) inp
      | (v, False) \<Rightarrow> inp)"

definition setList ::
  "externals \<Rightarrow> string list option
     \<Rightarrow> (string list option \<Rightarrow> CreateAccountSubscriptionInput \<Rightarrow> CreateAccountSubscriptionInput)
     \<Rightarrow> CreateAccountSubscriptionInput \<Rightarrow> CreateAccountSubscriptionInput" where
  "setList ext attr upd inp =
     (case GetOk_list attr of
        (v, ok) \<Rightarrow>
          if ok \<and> length v > 0 then upd (Some (ExpandStringValueList ext v)) inp else inp)"

text \<open>The request built by lines 150 to 205 of the file.\<close>

definition createInput ::
  "externals \<Rightarrow> AWSClient \<Rightarrow> ResourceData \<Rightarrow> CreateAccountSubscriptionInput" where
  "createInput ext meta rd =
     (let in0 = \<lparr>CreateAccountSubscriptionInput.AwsAccountId = Some (createAwsAccountId meta rd),
                 CreateAccountSubscriptionInput.AccountName = Some (Get_string (account_name rd)),
                 AuthenticationMethod = Get_string (authentication_method rd),
                 CreateAccountSubscriptionInput.Edition = Get_string (edition rd),
                 CreateAccountSubscriptionInput.NotificationEmail =
                   Some (Get_string (notification_email rd)),
                 ActiveDirectoryName = None,
                 AdminGroup = None,
                 AuthorGroup = None,
                 ReaderGroup = None,
                 ContactNumber = None,
                 DirectoryId = None,
                 EmailAddress = None,
                 FirstName = None,
                 CreateAccountSubscriptionInput.IAMIdentityCenterInstanceArn = None,
                 LastName = None,
                 Realm = None\<rparr>;
          in1 = setString (active_directory_name rd) (\<lambda>v i. i\<lparr>ActiveDirectoryName := v\<rparr>) in0;
          in2 = setList ext (admin_group rd) (\<lambda>v i. i\<lparr>AdminGroup := v\<rparr>) in1;
          in3 = setList ext (author_group rd) (\<lambda>v i. i\<lparr>AuthorGroup := v\<rparr>) in2;
          in4 = setList ext (reader_group rd) (\<lambda>v i. i\<lparr>ReaderGroup := v\<rparr>) in3;
          in5 = setString (contact_number rd) (\<lambda>v i. i\<lparr>ContactNumber := v\<rparr>) in4;
          in6 = setString (directory_id rd) (\<lambda>v i. i\<lparr>DirectoryId := v\<rparr>) in5;
          in7 = setString (email_address rd) (\<lambda>v i. i\<lparr>EmailAddress := v\<rparr>) in6;
          in8 = setString (first_name rd) (\<lambda>v i. i\<lparr>FirstName := v\<rparr>) in7;
          in9 = setString (iam_identity_center_instance_arn rd)
                  (\<lambda>v i. i\<lparr>CreateAccountSubscriptionInput.IAMIdentityCenterInstanceArn := v\<rparr>) in8;
          in10 = setString (last_name rd) (\<lambda>v i. i\<lparr>LastName := v\<rparr>) in9;
          in11 = setString (realm rd) (\<lambda>v i. i\<lparr>Realm := v\<rparr>) in10
      in in11)"

definition resourceAccountSubscriptionCreate ::
  "externals \<Rightarrow> AWSClient \<Rightarrow> state \<Rightarrow> state \<times> Diagnostics outcome" where
  "resourceAccountSubscriptionCreate ext meta s =
     (let diags = [];
          conn = QuickSightClient meta;
          awsAccountId = createAwsAccountId meta (d s);
          inp = createInput ext meta (d s);
          (out, err) = CreateAccountSubscription conn inp;
          s1 = logCall (CallCreateAccountSubscription inp) s
      in case err of
           Some e \<Rightarrow>
             (s1, Return (AppendDiagError diags names_QuickSight ErrActionCreating
                            ResNameAccountSubscription (Get_string (account_name (d s1))) e))
         | None \<Rightarrow>
             if out = None \<or> Option.bind out SignupResponse = None then
               (s1, Return (AppendDiagError diags names_QuickSight ErrActionCreating
                              ResNameAccountSubscription (Get_string (account_name (d s1)))
                              (ErrorsNew ''empty output'')))
             else
               (let s2 = SetId awsAccountId s1;
                    (w, werr) = waitAccountSubscriptionCreated ext conn (Id (d s2))
                                  (TimeoutCreate (d s2));
                    s3 = logCall (CallWaitCreated (Id (d s2))) s2
                in case werr of
                     Some e \<Rightarrow>
                       (s3, Return (AppendDiagError diags names_QuickSight
                                      ErrActionWaitingForCreation ResNameAccountSubscription
                                      (Id (d s3)) e))
                   | None \<Rightarrow>
                       (case resourceAccountSubscriptionRead ext meta s3 of
                          (s4, Panic p) \<Rightarrow> (s4, Panic p)
                        | (s4, Return rdiags) \<Rightarrow> (s4, Return (diags @ rdiags)))))"

subsection \<open>Delete\<close>

definition resourceAccountSubscriptionDelete ::
  "externals \<Rightarrow> AWSClient \<Rightarrow> state \<Rightarrow> state \<times> Diagnostics outcome" where
  "resourceAccountSubscriptionDelete ext meta s =
     (let diags = [];
          conn = QuickSightClient meta;
          inp = \<lparr>DeleteAccountSubscriptionInput.AwsAccountId = Some (Id (d s))\<rparr>;
          err = DeleteAccountSubscription conn inp;
          s1 = logCall (CallDeleteAccountSubscription inp) s
      in if errs_IsA_ResourceNotFoundException err then (s1, Return diags)
         else
           (case err of
              Some e \<Rightarrow>
                (s1, Return (AppendDiagError diags names_QuickSight ErrActionDeleting
                               ResNameAccountSubscription (Id (d s1)) e))
            | None \<Rightarrow>
                (let (w, werr) = waitAccountSubscriptionDeleted ext conn (Id (d s1))
                                   (TimeoutDelete (d s1));
                     s2 = logCall (CallWaitDeleted (Id (d s1))) s1
                 in case werr of
                      Some e \<Rightarrow>
                        (s2, Return (AppendDiagError diags names_QuickSight
                                       ErrActionWaitingForDeletion ResNameAccountSubscription
                                       (Id (d s2)) e))
                    | None \<Rightarrow> (s2, Return diags))))"

subsection \<open>A sample provider, client and configuration\<close>

text \<open>
  Concrete values on which the operations are run: a framework whose wait returns a given
  result and whose not-found test accepts the structured not-found error and the
  empty-result error, a client with fixed responses, the ambient account 123456789012,
  and the configuration with only the required attributes
  (account name acme, IAM_IDENTITY_CENTER, ENTERPRISE, a@b.com).
\<close>

definition exampleExternals :: "AccountInfo option \<times> error option \<Rightarrow> externals" where
  "exampleExternals w =
     \<lparr>WaitForStateContext = (\<lambda>c. w),
      ExpandStringValueList = filter (\<lambda>x. x \<noteq> []),
      isNotFound = (\<lambda>e. case e of NotFoundError l r \<Rightarrow> True | EmptyResultError r \<Rightarrow> True | _ \<Rightarrow> False)\<rparr>"

definition exampleClient ::
  "CreateAccountSubscriptionOutput option \<times> error option
     \<Rightarrow> DescribeAccountSubscriptionOutput option \<times> error option
     \<Rightarrow> error option \<Rightarrow> Client" where
  "exampleClient c r x =
     \<lparr>CreateAccountSubscription = (\<lambda>i. c),
      DescribeAccountSubscription = (\<lambda>i. r),
      DeleteAccountSubscription = (\<lambda>i. x)\<rparr>"

definition exampleMeta :: "Client \<Rightarrow> AWSClient" where
  "exampleMeta conn = \<lparr>AccountID = ''123456789012'', QuickSightClient = conn\<rparr>"

definition exampleData :: "string \<Rightarrow> bool \<Rightarrow> string option \<Rightarrow> ResourceData" where
  "exampleData ident new acct =
     \<lparr>Id = ident, IsNewResource = new, TimeoutCreate = 600, TimeoutDelete = 600,
      account_name = Some ''acme'', account_subscription_status = None,
      active_directory_name = None, admin_group = None,
      authentication_method = Some ''IAM_IDENTITY_CENTER'', author_group = None,
      aws_account_id = acct, contact_number = None, directory_id = None,
      edition = Some ''ENTERPRISE'', email_address = None, first_name = None,
      iam_identity_center_instance_arn = None, last_name = None,
      notification_email = Some ''a@b.com'', reader_group = None, realm = None\<rparr>"

definition exampleState :: "string \<Rightarrow> bool \<Rightarrow> string option \<Rightarrow> state" where
  "exampleState ident new acct = \<lparr>d = exampleData ident new acct, calls = []\<rparr>"

definition exampleInfo :: "string option \<Rightarrow> AccountInfo" where
  "exampleInfo st =
     \<lparr>AccountInfo.AccountName = Some ''acme'', AccountSubscriptionStatus = st,
      AccountInfo.Edition = ''ENTERPRISE'', AccountInfo.IAMIdentityCenterInstanceArn = None,
      AccountInfo.NotificationEmail = Some ''a@b.com''\<rparr>"

text \<open>A successful create response and a describe response with status ACCOUNT_CREATED.\<close>

definition okCreate :: "CreateAccountSubscriptionOutput option \<times> error option" where
  "okCreate = (Some \<lparr>SignupResponse = Some \<lparr>accountName = Some ''acme''\<rparr>\<rparr>, None)"

definition okDescribe :: "DescribeAccountSubscriptionOutput option \<times> error option" where
  "okDescribe = (Some \<lparr>AccountInfo = Some (exampleInfo (Some statusCreated))\<rparr>, None)"

subsection \<open>Reading the call log\<close>

fun isDescribeCall :: "call \<Rightarrow> bool" where
  "isDescribeCall (CallDescribeAccountSubscription i) = True"
| "isDescribeCall (CallCreateAccountSubscription i) = False"
| "isDescribeCall (CallDeleteAccountSubscription i) = False"
| "isDescribeCall (CallWaitCreated i) = False"
| "isDescribeCall (CallWaitDeleted i) = False"

definition newCalls :: "state \<Rightarrow> state \<Rightarrow> call list" where
  "newCalls s s' = drop (length (calls s)) (calls s')"

section \<open>Properties\<close>

lemmas example_defs = exampleExternals_def exampleMeta_def exampleClient_def exampleState_def
  exampleData_def exampleInfo_def

subsection \<open>Lookup\<close>

lemma find_cases:
  "findAccountSubscriptionByID conn i = (out, err) \<Longrightarrow>
     (out = None \<and> err \<noteq> None) \<or> (out \<noteq> None \<and> err = None)"
  unfolding findAccountSubscriptionByID_def Let_def
  by (cases "DescribeAccountSubscription conn \<lparr>DescribeAccountSubscriptionInput.AwsAccountId = Some i\<rparr>")
     (auto split: if_splits option.splits dest: sym)

lemma find_not_found:
  "errs_IsA_ResourceNotFoundException
      (snd (DescribeAccountSubscription conn \<lparr>DescribeAccountSubscriptionInput.AwsAccountId = Some i\<rparr>)) \<Longrightarrow>
   findAccountSubscriptionByID conn i =
     (None, Some (NotFoundError
        (snd (DescribeAccountSubscription conn \<lparr>DescribeAccountSubscriptionInput.AwsAccountId = Some i\<rparr>))
        \<lparr>DescribeAccountSubscriptionInput.AwsAccountId = Some i\<rparr>))"
  unfolding findAccountSubscriptionByID_def Let_def
  by (cases "DescribeAccountSubscription conn \<lparr>DescribeAccountSubscriptionInput.AwsAccountId = Some i\<rparr>")
     simp

lemma find_empty:
  "DescribeAccountSubscription conn \<lparr>DescribeAccountSubscriptionInput.AwsAccountId = Some i\<rparr> = (out, None) \<Longrightarrow>
   Option.bind out AccountInfo = None \<Longrightarrow>
   findAccountSubscriptionByID conn i =
     (None, Some (EmptyResultError \<lparr>DescribeAccountSubscriptionInput.AwsAccountId = Some i\<rparr>))"
  unfolding findAccountSubscriptionByID_def Let_def
  by (cases out) (auto split: option.splits)

lemma status_no_nil_out: "statusAccountSubscription ext conn i u \<noteq> Panic Deref_out"
proof (cases "findAccountSubscriptionByID conn i")
  case (Pair out err)
  from find_cases [OF Pair] show ?thesis
    unfolding statusAccountSubscription_def Let_def Pair
    by (auto split: option.splits)
qed

lemma statusAccountSubscription_nil_status:
  assumes "findAccountSubscriptionByID conn i = (Some info, None)"
    and "AccountSubscriptionStatus info = None"
  shows "statusAccountSubscription ext conn i u = Panic Deref_out_AccountSubscriptionStatus"
  unfolding statusAccountSubscription_def Let_def
  by (simp add: assms)

lemma read_success_no_panic:
  assumes "snd (findAccountSubscriptionByID (QuickSightClient meta) (Id (d s))) = None"
  shows "snd (resourceAccountSubscriptionRead ext meta s) \<noteq> Panic p"
proof (cases "findAccountSubscriptionByID (QuickSightClient meta) (Id (d s))")
  case (Pair out err)
  with assms have e: "err = None" by simp
  with find_cases [OF Pair] obtain info where o: "out = Some info" by auto
  show ?thesis
    unfolding resourceAccountSubscriptionRead_def Let_def Pair e o
    by (simp add: logCall_def SetId_def split: bool.splits)
qed

subsection \<open>Read\<close>

lemma read_calls:
  "calls (fst (resourceAccountSubscriptionRead ext meta s)) =
     calls s @ [CallDescribeAccountSubscription
                  \<lparr>DescribeAccountSubscriptionInput.AwsAccountId = Some (Id (d s))\<rparr>]"
  unfolding resourceAccountSubscriptionRead_def Let_def
  by (simp add: logCall_def SetId_def split: prod.splits option.splits outcome.splits bool.splits)

lemma read_new_id:
  "IsNewResource (d s) \<Longrightarrow> Id (d (fst (resourceAccountSubscriptionRead ext meta s))) = Id (d s)"
  unfolding resourceAccountSubscriptionRead_def Let_def
  by (simp add: logCall_def SetId_def split: prod.splits option.splits outcome.splits bool.splits)

lemma read_existing_fetch_error_nil_deref:
  assumes "\<not> IsNewResource (d s)"
    and "findAccountSubscriptionByID (QuickSightClient meta) (Id (d s)) = (None, Some e)"
    and "\<not> tfresource_NotFound ext (Some e)"
  shows "snd (resourceAccountSubscriptionRead ext meta s) = Panic Deref_out"
  using assms unfolding resourceAccountSubscriptionRead_def Let_def
  by (simp add: logCall_def SetId_def)

text \<open>
  Claim C1. The claim: whenever the fetch fails with an error that is not a not-found
  condition, Read returns a ReadError diagnostic, also for a resource that is not new.
  The code does not: for a resource that is not new, the unsubscribed check reads the
  status through the nil fetch result before the error is looked at. Here the describe
  call fails with an access-denied fault on an existing resource, and Read ends in a nil
  dereference of \<^verbatim>\<open>out\<close> instead of returning a diagnostic.
\<close>

theorem read_existing_fetch_error_panics:
  "resourceAccountSubscriptionRead (exampleExternals (None, None))
     (exampleMeta (exampleClient (None, None) (None, Some (OtherFault ''AccessDeniedException'')) None))
     (exampleState ''123456789012'' False None) =
   (logCall (CallDescribeAccountSubscription
               \<lparr>DescribeAccountSubscriptionInput.AwsAccountId = Some ''123456789012''\<rparr>)
      (exampleState ''123456789012'' False None),
    Panic Deref_out)"
  by (simp add: resourceAccountSubscriptionRead_def findAccountSubscriptionByID_def Let_def
        exampleExternals_def exampleMeta_def exampleClient_def exampleState_def exampleData_def
        logCall_def SetId_def)

text \<open>
  Claim C7. For a resource that is not new, when the fetch succeeds and the fetched status
  is UNSUBSCRIBED, Read clears the id and returns no diagnostic.
\<close>

theorem read_unsubscribed_existing_clears_id:
  assumes "\<not> IsNewResource (d s)"
    and "findAccountSubscriptionByID (QuickSightClient meta) (Id (d s)) = (Some info, None)"
    and "AccountSubscriptionStatus info = Some statusUnsuscribed"
  shows "resourceAccountSubscriptionRead ext meta s =
           (SetId [] (logCall (CallDescribeAccountSubscription
               \<lparr>DescribeAccountSubscriptionInput.AwsAccountId = Some (Id (d s))\<rparr>) s), Return [])
         \<and> Id (d (fst (resourceAccountSubscriptionRead ext meta s))) = []"
  using assms unfolding resourceAccountSubscriptionRead_def Let_def
  by (simp add: logCall_def SetId_def)

theorem read_unsubscribed_existing_clears_id_witness:
  "\<not> IsNewResource (d (exampleState ''123456789012'' False None))
   \<and> findAccountSubscriptionByID
        (QuickSightClient (exampleMeta (exampleClient (None, None)
           (Some \<lparr>AccountInfo = Some (exampleInfo (Some statusUnsuscribed))\<rparr>, None) None)))
        (Id (d (exampleState ''123456789012'' False None)))
       = (Some (exampleInfo (Some statusUnsuscribed)), None)
   \<and> snd (resourceAccountSubscriptionRead (exampleExternals (None, None))
        (exampleMeta (exampleClient (None, None)
           (Some \<lparr>AccountInfo = Some (exampleInfo (Some statusUnsuscribed))\<rparr>, None) None))
        (exampleState ''123456789012'' False None)) = Return []
   \<and> Id (d (fst (resourceAccountSubscriptionRead (exampleExternals (None, None))
        (exampleMeta (exampleClient (None, None)
           (Some \<lparr>AccountInfo = Some (exampleInfo (Some statusUnsuscribed))\<rparr>, None) None))
        (exampleState ''123456789012'' False None)))) = []"
proof -
  let ?s = "exampleState ''123456789012'' False None"
  let ?meta = "exampleMeta (exampleClient (None, None)
           (Some \<lparr>AccountInfo = Some (exampleInfo (Some statusUnsuscribed))\<rparr>, None) None)"
  have h1: "\<not> IsNewResource (d ?s)" by (simp add: example_defs)
  have h2: "findAccountSubscriptionByID (QuickSightClient ?meta) (Id (d ?s))
              = (Some (exampleInfo (Some statusUnsuscribed)), None)"
    by (simp add: example_defs findAccountSubscriptionByID_def)
  have h3: "AccountSubscriptionStatus (exampleInfo (Some statusUnsuscribed)) = Some statusUnsuscribed"
    by (simp add: example_defs)
  from read_unsubscribed_existing_clears_id [OF h1 h2 h3, of "exampleExternals (None, None)"] h1 h2 show ?thesis by (simp add: SetId_def logCall_def)
qed

text \<open>
  Claim C8. For a newly created resource whose fetch reports not-found, Read returns a
  ReadError diagnostic carrying that error and leaves the id as it was.
\<close>

theorem read_not_found_new_resource_surfaces_error:
  assumes "IsNewResource (d s)"
    and "findAccountSubscriptionByID (QuickSightClient meta) (Id (d s)) = (out, Some e)"
    and "tfresource_NotFound ext (Some e)"
  shows "resourceAccountSubscriptionRead ext meta s =
           (logCall (CallDescribeAccountSubscription
               \<lparr>DescribeAccountSubscriptionInput.AwsAccountId = Some (Id (d s))\<rparr>) s,
            Return [DiagError names_QuickSight ErrActionReading ResNameAccountSubscription (Id (d s)) e])
         \<and> Id (d (fst (resourceAccountSubscriptionRead ext meta s))) = Id (d s)"
  using assms unfolding resourceAccountSubscriptionRead_def Let_def
  by (simp add: logCall_def SetId_def AppendDiagError_def)

theorem read_not_found_new_resource_surfaces_error_witness:
  "IsNewResource (d (exampleState ''123456789012'' True None))
   \<and> tfresource_NotFound (exampleExternals (None, None))
        (snd (findAccountSubscriptionByID
          (QuickSightClient (exampleMeta (exampleClient (None, None)
             (None, Some (ResourceNotFoundException ''not found'')) None)))
          ''123456789012''))
   \<and> snd (resourceAccountSubscriptionRead (exampleExternals (None, None))
        (exampleMeta (exampleClient (None, None)
           (None, Some (ResourceNotFoundException ''not found'')) None))
        (exampleState ''123456789012'' True None))
      = Return [DiagError ''QuickSight'' ErrActionReading ''Account Subscription'' ''123456789012''
          (NotFoundError (Some (ResourceNotFoundException ''not found''))
             \<lparr>DescribeAccountSubscriptionInput.AwsAccountId = Some ''123456789012''\<rparr>)]
   \<and> Id (d (fst (resourceAccountSubscriptionRead (exampleExternals (None, None))
        (exampleMeta (exampleClient (None, None)
           (None, Some (ResourceNotFoundException ''not found'')) None))
        (exampleState ''123456789012'' True None)))) = ''123456789012''"
proof -
  let ?s = "exampleState ''123456789012'' True None"
  let ?meta = "exampleMeta (exampleClient (None, None)
           (None, Some (ResourceNotFoundException ''not found'')) None)"
  let ?e = "NotFoundError (Some (ResourceNotFoundException ''not found''))
             \<lparr>DescribeAccountSubscriptionInput.AwsAccountId = Some ''123456789012''\<rparr>"
  have h1: "IsNewResource (d ?s)" by (simp add: example_defs)
  have h2: "findAccountSubscriptionByID (QuickSightClient ?meta) (Id (d ?s)) = (None, Some ?e)"
    by (simp add: example_defs findAccountSubscriptionByID_def)
  have h3: "tfresource_NotFound (exampleExternals (None, None)) (Some ?e)"
    by (simp add: example_defs)
  have i: "Id (d ?s) = ''123456789012''" by (simp add: example_defs)
  from read_not_found_new_resource_surfaces_error [OF h1 h2 h3] h1 h2 h3 show ?thesis
    by (simp add: i names_QuickSight_def ResNameAccountSubscription_def logCall_def)
qed

subsection \<open>Delete\<close>

text \<open>
  Claim C9. When the remote delete call reports the resource-not-found fault, Delete
  returns no diagnostic, and the only call it has made is the delete call: the wait for
  the unsubscribed status is not invoked.
\<close>

theorem delete_not_found_succeeds_without_wait:
  assumes "errs_IsA_ResourceNotFoundException
             (DeleteAccountSubscription (QuickSightClient meta)
                \<lparr>DeleteAccountSubscriptionInput.AwsAccountId = Some (Id (d s))\<rparr>)"
  shows "resourceAccountSubscriptionDelete ext meta s =
           (logCall (CallDeleteAccountSubscription
               \<lparr>DeleteAccountSubscriptionInput.AwsAccountId = Some (Id (d s))\<rparr>) s, Return [])
         \<and> calls (fst (resourceAccountSubscriptionDelete ext meta s)) =
             calls s @ [CallDeleteAccountSubscription
               \<lparr>DeleteAccountSubscriptionInput.AwsAccountId = Some (Id (d s))\<rparr>]"
  using assms unfolding resourceAccountSubscriptionDelete_def Let_def
  by (simp add: logCall_def)

theorem delete_not_found_succeeds_without_wait_witness:
  "errs_IsA_ResourceNotFoundException
     (DeleteAccountSubscription
        (QuickSightClient (exampleMeta (exampleClient (None, None) (None, None)
           (Some (ResourceNotFoundException ''gone'')))))
        \<lparr>DeleteAccountSubscriptionInput.AwsAccountId = Some ''123456789012''\<rparr>)
   \<and> snd (resourceAccountSubscriptionDelete (exampleExternals (None, None))
        (exampleMeta (exampleClient (None, None) (None, None)
           (Some (ResourceNotFoundException ''gone''))))
        (exampleState ''123456789012'' False None)) = Return []
   \<and> calls (fst (resourceAccountSubscriptionDelete (exampleExternals (None, None))
        (exampleMeta (exampleClient (None, None) (None, None)
           (Some (ResourceNotFoundException ''gone''))))
        (exampleState ''123456789012'' False None)))
      = [CallDeleteAccountSubscription
           \<lparr>DeleteAccountSubscriptionInput.AwsAccountId = Some ''123456789012''\<rparr>]"
proof -
  let ?s = "exampleState ''123456789012'' False None"
  let ?meta = "exampleMeta (exampleClient (None, None) (None, None)
           (Some (ResourceNotFoundException ''gone'')))"
  have i: "Id (d ?s) = ''123456789012''" "calls ?s = []" by (simp_all add: example_defs)
  have h: "errs_IsA_ResourceNotFoundException
             (DeleteAccountSubscription (QuickSightClient ?meta)
                \<lparr>DeleteAccountSubscriptionInput.AwsAccountId = Some (Id (d ?s))\<rparr>)"
    by (simp add: example_defs)
  from delete_not_found_succeeds_without_wait [OF h, of "exampleExternals (None, None)"] h show ?thesis
    by (simp add: i logCall_def)
qed

subsection \<open>Lookup returns a result or an error\<close>

text \<open>
  What holds of the lookup and its callers: the lookup returns a nil result exactly when it
  returns a non-nil error, the remote not-found fault becomes a structured not-found error
  with a nil result, a response without account info becomes the empty-result error, the
  status refresh never reads through a nil lookup result, and Read does not panic when the
  lookup error is nil.
\<close>

lemma findAccountSubscriptionByID_one_of_result_and_error:
  "((fst (findAccountSubscriptionByID conn i) = None) = (snd (findAccountSubscriptionByID conn i) \<noteq> None))
   \<and> (errs_IsA_ResourceNotFoundException
        (snd (DescribeAccountSubscription connA \<lparr>DescribeAccountSubscriptionInput.AwsAccountId = Some iA\<rparr>)) \<longrightarrow>
      findAccountSubscriptionByID connA iA =
        (None, Some (NotFoundError
           (snd (DescribeAccountSubscription connA \<lparr>DescribeAccountSubscriptionInput.AwsAccountId = Some iA\<rparr>))
           \<lparr>DescribeAccountSubscriptionInput.AwsAccountId = Some iA\<rparr>)))
   \<and> (DescribeAccountSubscription connB \<lparr>DescribeAccountSubscriptionInput.AwsAccountId = Some iB\<rparr> = (outB, None)
        \<and> Option.bind outB AccountInfo = None \<longrightarrow>
      findAccountSubscriptionByID connB iB =
        (None, Some (EmptyResultError \<lparr>DescribeAccountSubscriptionInput.AwsAccountId = Some iB\<rparr>)))
   \<and> statusAccountSubscription ext conn i u \<noteq> Panic Deref_out
   \<and> (snd (findAccountSubscriptionByID (QuickSightClient meta) (Id (d s))) = None \<longrightarrow>
      snd (resourceAccountSubscriptionRead ext meta s) \<noteq> Panic p)"
proof -
  have a: "(fst (findAccountSubscriptionByID conn i) = None) = (snd (findAccountSubscriptionByID conn i) \<noteq> None)"
    using find_cases [of conn i] by (cases "findAccountSubscriptionByID conn i") auto
  show ?thesis
    using a find_not_found [of connA iA] find_empty [of connB iB outB]
      status_no_nil_out [of ext conn i u] read_success_no_panic [of meta s ext p]
    by blast
qed

text \<open>
  Claim C10. The claim: after a nil lookup error the callers, the status refresh among
  them, never dereference nil on the success branch. The lookup does return a non-nil
  result with the nil error, but the status refresh then reads
  \<^verbatim>\<open>*out.AccountSubscriptionStatus\<close> without a nil check, where Read goes through
  \<^verbatim>\<open>aws.ToString\<close> for the same field. Here the describe call answers with an
  account info that carries no status: the lookup succeeds, and the status refresh ends
  in a nil dereference of the status field.
\<close>

theorem status_refresh_nil_status_panics:
  "findAccountSubscriptionByID
     (exampleClient (None, None) (Some \<lparr>AccountInfo = Some (exampleInfo None)\<rparr>, None) None)
     ''123456789012''
     = (Some (exampleInfo None), None)
   \<and> statusAccountSubscription (exampleExternals (None, None))
       (exampleClient (None, None) (Some \<lparr>AccountInfo = Some (exampleInfo None)\<rparr>, None) None)
       ''123456789012'' ()
     = Panic Deref_out_AccountSubscriptionStatus"
  by (simp add: statusAccountSubscription_def findAccountSubscriptionByID_def Let_def
        exampleClient_def exampleInfo_def)

subsection \<open>Create\<close>

lemma setString_preserves:
  "(\<And>v i. f (upd v i) = f i) \<Longrightarrow> f (setString attr upd inp) = f inp"
  by (cases attr) (simp_all add: setString_def split: bool.splits)

lemma setList_preserves:
  "(\<And>v i. f (upd v i) = f i) \<Longrightarrow> f (setList ext attr upd inp) = f inp"
  by (cases attr) (simp_all add: setList_def split: bool.splits)

lemma createInput_AwsAccountId:
  "CreateAccountSubscriptionInput.AwsAccountId (createInput ext meta rd) = Some (createAwsAccountId meta rd)"
  unfolding createInput_def Let_def
  by (simp add: setString_preserves setList_preserves)

lemma create_failed_call:
  assumes "CreateAccountSubscription (QuickSightClient meta) (createInput ext meta (d s)) = (out, Some e)"
  shows "resourceAccountSubscriptionCreate ext meta s =
           (logCall (CallCreateAccountSubscription (createInput ext meta (d s))) s,
            Return [DiagError names_QuickSight ErrActionCreating ResNameAccountSubscription
                      (Get_string (account_name (d s))) e])"
  unfolding resourceAccountSubscriptionCreate_def Let_def
  by (simp add: assms logCall_def AppendDiagError_def)

lemma create_empty_output:
  assumes "CreateAccountSubscription (QuickSightClient meta) (createInput ext meta (d s)) = (out, None)"
    and "out = None \<or> Option.bind out SignupResponse = None"
  shows "resourceAccountSubscriptionCreate ext meta s =
           (logCall (CallCreateAccountSubscription (createInput ext meta (d s))) s,
            Return [DiagError names_QuickSight ErrActionCreating ResNameAccountSubscription
                      (Get_string (account_name (d s))) (ErrorsNew ''empty output'')])"
proof -
  have b: "Option.bind out SignupResponse = None"
    using assms(2) by (cases out) simp_all
  show ?thesis
    unfolding resourceAccountSubscriptionCreate_def Let_def
    by (simp add: assms(1) b logCall_def AppendDiagError_def)
qed

lemma create_after_SetId:
  "Id (d (SetId a (logCall c s))) = a"
  "TimeoutCreate (d (SetId a (logCall c s))) = TimeoutCreate (d s)"
  "IsNewResource (d (SetId a (logCall c s))) = IsNewResource (d s)"
  "calls (SetId a (logCall c s)) = calls s @ [c]"
  by (simp_all add: SetId_def logCall_def)

lemma create_wait_failed:
  assumes "CreateAccountSubscription (QuickSightClient meta) (createInput ext meta (d s)) = (Some resp, None)"
    and "SignupResponse resp \<noteq> None"
    and "snd (waitAccountSubscriptionCreated ext (QuickSightClient meta)
                (createAwsAccountId meta (d s)) (TimeoutCreate (d s))) = Some e"
  shows "resourceAccountSubscriptionCreate ext meta s =
           (logCall (CallWaitCreated (createAwsAccountId meta (d s)))
              (SetId (createAwsAccountId meta (d s))
                 (logCall (CallCreateAccountSubscription (createInput ext meta (d s))) s)),
            Return [DiagError names_QuickSight ErrActionWaitingForCreation ResNameAccountSubscription
                      (createAwsAccountId meta (d s)) e])"
proof -
  obtain w where w: "waitAccountSubscriptionCreated ext (QuickSightClient meta)
                (createAwsAccountId meta (d s)) (TimeoutCreate (d s)) = (w, Some e)"
    using assms(3) by (cases "waitAccountSubscriptionCreated ext (QuickSightClient meta)
                (createAwsAccountId meta (d s)) (TimeoutCreate (d s))") simp
  obtain sr where sr: "SignupResponse resp = Some sr"
    using assms(2) by (cases "SignupResponse resp") simp_all
  have i: "Id (d (logCall c s')) = Id (d s')" for c s'
    by (simp add: logCall_def)
  show ?thesis
    unfolding resourceAccountSubscriptionCreate_def Let_def
    by (simp add: assms(1) sr create_after_SetId w i AppendDiagError_def)
qed

lemma rewrap_outcome:
  "(case x of (s4, Panic p) \<Rightarrow> (s4, Panic p) | (s4, Return r) \<Rightarrow> (s4, Return r)) = x"
proof (cases x)
  case (Pair a b)
  then show ?thesis by (cases b) simp_all
qed

lemma create_read_back:
  assumes "CreateAccountSubscription (QuickSightClient meta) (createInput ext meta (d s)) = (Some resp, None)"
    and "SignupResponse resp \<noteq> None"
    and "snd (waitAccountSubscriptionCreated ext (QuickSightClient meta)
                (createAwsAccountId meta (d s)) (TimeoutCreate (d s))) = None"
  shows "resourceAccountSubscriptionCreate ext meta s =
           resourceAccountSubscriptionRead ext meta
             (logCall (CallWaitCreated (createAwsAccountId meta (d s)))
                (SetId (createAwsAccountId meta (d s))
                   (logCall (CallCreateAccountSubscription (createInput ext meta (d s))) s)))"
proof -
  obtain w where w: "waitAccountSubscriptionCreated ext (QuickSightClient meta)
                (createAwsAccountId meta (d s)) (TimeoutCreate (d s)) = (w, None)"
    using assms(3) by (cases "waitAccountSubscriptionCreated ext (QuickSightClient meta)
                (createAwsAccountId meta (d s)) (TimeoutCreate (d s))") simp
  obtain sr where sr: "SignupResponse resp = Some sr"
    using assms(2) by (cases "SignupResponse resp") simp_all
  show ?thesis
    unfolding resourceAccountSubscriptionCreate_def Let_def
    by (simp add: assms(1) sr create_after_SetId w rewrap_outcome)
qed

lemma createAwsAccountId_supplied:
  "aws_account_id rd = Some v \<Longrightarrow> v \<noteq> [] \<Longrightarrow> createAwsAccountId meta rd = v"
  by (simp add: createAwsAccountId_def)

lemma createAwsAccountId_omitted:
  "aws_account_id rd = None \<Longrightarrow> createAwsAccountId meta rd = AccountID meta"
  by (simp add: createAwsAccountId_def)

lemma create_first_call:
  "take (Suc (length (calls s))) (calls (fst (resourceAccountSubscriptionCreate ext meta s))) =
     calls s @ [CallCreateAccountSubscription (createInput ext meta (d s))]"
proof (cases "CreateAccountSubscription (QuickSightClient meta) (createInput ext meta (d s))")
  case (Pair out err)
  show ?thesis
  proof (cases err)
    case (Some e)
    with Pair create_failed_call [of meta ext s out e] show ?thesis
      by (simp add: logCall_def)
  next
    case None
    show ?thesis
    proof (cases "out = None \<or> Option.bind out SignupResponse = None")
      case True
      with Pair None create_empty_output [of meta ext s out] show ?thesis
        by (simp add: logCall_def)
    next
      case False
      then obtain resp where r: "out = Some resp" "SignupResponse resp \<noteq> None"
        by (cases out) auto
      show ?thesis
      proof (cases "snd (waitAccountSubscriptionCreated ext (QuickSightClient meta)
                (createAwsAccountId meta (d s)) (TimeoutCreate (d s)))")
        case None
        from create_read_back [of meta ext s resp] Pair \<open>err = None\<close> r None
        show ?thesis by (simp add: read_calls logCall_def SetId_def)
      next
        case (Some e)
        from create_wait_failed [of meta ext s resp e] Pair \<open>err = None\<close> r Some
        show ?thesis by (simp add: logCall_def SetId_def)
      qed
    qed
  qed
qed

lemma create_new_sets_id:
  assumes "CreateAccountSubscription (QuickSightClient meta) (createInput ext meta (d s)) = (Some resp, None)"
    and "SignupResponse resp \<noteq> None"
    and "IsNewResource (d s)"
  shows "Id (d (fst (resourceAccountSubscriptionCreate ext meta s))) = createAwsAccountId meta (d s)"
proof (cases "snd (waitAccountSubscriptionCreated ext (QuickSightClient meta)
                (createAwsAccountId meta (d s)) (TimeoutCreate (d s)))")
  case None
  have n: "IsNewResource (d (logCall (CallWaitCreated (createAwsAccountId meta (d s)))
                (SetId (createAwsAccountId meta (d s))
                   (logCall (CallCreateAccountSubscription (createInput ext meta (d s))) s))))"
    using assms(3) by (simp add: logCall_def SetId_def)
  from create_read_back [OF assms(1,2) None] read_new_id [OF n]
  show ?thesis by (simp add: logCall_def SetId_def)
next
  case (Some e)
  from create_wait_failed [OF assms(1,2) Some] show ?thesis
    by (simp add: logCall_def SetId_def)
qed

text \<open>
  Claim C4. When the configuration supplies a non-empty \<^verbatim>\<open>aws_account_id\<close>, the
  create request carries that id, the request is the first call Create makes, and after a
  non-empty successful response the resource id is that id; when the configuration omits
  it, the ambient account id of the provider takes its place in all three. The resource
  id is read at the end of Create on a resource marked new, as the framework marks it
  before it calls Create.
\<close>

theorem create_uses_configured_or_ambient_account_id:
  "(aws_account_id (d s) = Some v \<and> v \<noteq> [] \<longrightarrow>
      CreateAccountSubscriptionInput.AwsAccountId (createInput ext meta (d s)) = Some v
      \<and> take (Suc (length (calls s))) (calls (fst (resourceAccountSubscriptionCreate ext meta s))) =
          calls s @ [CallCreateAccountSubscription (createInput ext meta (d s))]
      \<and> (CreateAccountSubscription (QuickSightClient meta) (createInput ext meta (d s)) = (Some resp, None)
           \<and> SignupResponse resp \<noteq> None \<and> IsNewResource (d s) \<longrightarrow>
         Id (d (fst (resourceAccountSubscriptionCreate ext meta s))) = v))
   \<and> (aws_account_id (d s) = None \<longrightarrow>
      CreateAccountSubscriptionInput.AwsAccountId (createInput ext meta (d s)) = Some (AccountID meta)
      \<and> take (Suc (length (calls s))) (calls (fst (resourceAccountSubscriptionCreate ext meta s))) =
          calls s @ [CallCreateAccountSubscription (createInput ext meta (d s))]
      \<and> (CreateAccountSubscription (QuickSightClient meta) (createInput ext meta (d s)) = (Some resp, None)
           \<and> SignupResponse resp \<noteq> None \<and> IsNewResource (d s) \<longrightarrow>
         Id (d (fst (resourceAccountSubscriptionCreate ext meta s))) = AccountID meta))"
  using createInput_AwsAccountId [of ext meta "d s"] create_first_call [of s ext meta]
    create_new_sets_id [of meta ext s resp]
    createAwsAccountId_supplied [of "d s" v meta] createAwsAccountId_omitted [of "d s" meta]
  by simp

theorem create_uses_configured_or_ambient_account_id_witness:
  "aws_account_id (d (exampleState [] True (Some ''999988887777''))) = Some ''999988887777''
   \<and> CreateAccountSubscriptionInput.AwsAccountId
        (createInput (exampleExternals (None, None))
           (exampleMeta (exampleClient okCreate okDescribe None))
           (d (exampleState [] True (Some ''999988887777'')))) = Some ''999988887777''
   \<and> Id (d (fst (resourceAccountSubscriptionCreate (exampleExternals (None, None))
        (exampleMeta (exampleClient okCreate okDescribe None))
        (exampleState [] True (Some ''999988887777''))))) = ''999988887777''
   \<and> aws_account_id (d (exampleState [] True None)) = None
   \<and> CreateAccountSubscriptionInput.AwsAccountId
        (createInput (exampleExternals (None, None))
           (exampleMeta (exampleClient okCreate okDescribe None))
           (d (exampleState [] True None))) = Some ''123456789012''
   \<and> Id (d (fst (resourceAccountSubscriptionCreate (exampleExternals (None, None))
        (exampleMeta (exampleClient okCreate okDescribe None))
        (exampleState [] True None)))) = ''123456789012''"
proof -
  let ?ext = "exampleExternals (None, None)"
  let ?meta = "exampleMeta (exampleClient okCreate okDescribe None)"
  let ?s = "exampleState [] True (Some ''999988887777'')"
  let ?t = "exampleState [] True None"
  let ?resp = "\<lparr>SignupResponse = Some \<lparr>accountName = Some ''acme''\<rparr>\<rparr>"
  have h1: "CreateAccountSubscription (QuickSightClient ?meta) (createInput ?ext ?meta rd)
              = (Some ?resp, None)" for rd
    by (simp add: exampleMeta_def exampleClient_def okCreate_def)
  have h2: "SignupResponse ?resp \<noteq> None" by simp
  have h3: "aws_account_id (d ?s) = Some ''999988887777''" "IsNewResource (d ?s)"
    "aws_account_id (d ?t) = None" "IsNewResource (d ?t)" "AccountID ?meta = ''123456789012''"
    by (simp_all add: example_defs)
  from create_uses_configured_or_ambient_account_id [where s = ?s and v = "''999988887777''" and ext = ?ext and meta = ?meta and resp = ?resp]
       create_uses_configured_or_ambient_account_id [where s = ?t and ext = ?ext and meta = ?meta and resp = ?resp]
       h1 h2 h3
  show ?thesis by simp
qed

text \<open>
  Claim C5. When none of the optional attributes is set, the create request leaves every
  optional field nil: active directory name, the admin, author and reader groups, contact
  number, directory id, email address, first and last name, identity center instance ARN
  and realm.
\<close>

theorem createInput_omits_absent_optional_fields:
  assumes "active_directory_name rd = None" and "admin_group rd = None"
    and "author_group rd = None" and "reader_group rd = None"
    and "contact_number rd = None" and "directory_id rd = None"
    and "email_address rd = None" and "first_name rd = None"
    and "iam_identity_center_instance_arn rd = None" and "last_name rd = None"
    and "realm rd = None"
  shows "ActiveDirectoryName (createInput ext meta rd) = None
       \<and> AdminGroup (createInput ext meta rd) = None
       \<and> AuthorGroup (createInput ext meta rd) = None
       \<and> ReaderGroup (createInput ext meta rd) = None
       \<and> ContactNumber (createInput ext meta rd) = None
       \<and> DirectoryId (createInput ext meta rd) = None
       \<and> EmailAddress (createInput ext meta rd) = None
       \<and> FirstName (createInput ext meta rd) = None
       \<and> CreateAccountSubscriptionInput.IAMIdentityCenterInstanceArn (createInput ext meta rd) = None
       \<and> LastName (createInput ext meta rd) = None
       \<and> Realm (createInput ext meta rd) = None"
  unfolding createInput_def Let_def
  by (simp add: assms setString_def setList_def)

theorem createInput_omits_absent_optional_fields_witness:
  "active_directory_name (exampleData [] True None) = None
   \<and> admin_group (exampleData [] True None) = None
   \<and> author_group (exampleData [] True None) = None
   \<and> reader_group (exampleData [] True None) = None
   \<and> contact_number (exampleData [] True None) = None
   \<and> directory_id (exampleData [] True None) = None
   \<and> email_address (exampleData [] True None) = None
   \<and> first_name (exampleData [] True None) = None
   \<and> iam_identity_center_instance_arn (exampleData [] True None) = None
   \<and> last_name (exampleData [] True None) = None
   \<and> realm (exampleData [] True None) = None
   \<and> createInput (exampleExternals (None, None))
        (exampleMeta (exampleClient okCreate okDescribe None)) (exampleData [] True None)
      = \<lparr>CreateAccountSubscriptionInput.AwsAccountId = Some ''123456789012'',
         CreateAccountSubscriptionInput.AccountName = Some ''acme'',
         AuthenticationMethod = ''IAM_IDENTITY_CENTER'',
         CreateAccountSubscriptionInput.Edition = ''ENTERPRISE'',
         CreateAccountSubscriptionInput.NotificationEmail = Some ''a@b.com'',
         ActiveDirectoryName = None, AdminGroup = None, AuthorGroup = None, ReaderGroup = None,
         ContactNumber = None, DirectoryId = None, EmailAddress = None, FirstName = None,
         CreateAccountSubscriptionInput.IAMIdentityCenterInstanceArn = None,
         LastName = None, Realm = None\<rparr>"
proof -
  let ?ext = "exampleExternals (None, None)"
  let ?meta = "exampleMeta (exampleClient okCreate okDescribe None)"
  let ?rd = "exampleData [] True None"
  have h: "active_directory_name ?rd = None"
    "admin_group ?rd = None"
    "author_group ?rd = None"
    "reader_group ?rd = None"
    "contact_number ?rd = None"
    "directory_id ?rd = None"
    "email_address ?rd = None"
    "first_name ?rd = None"
    "iam_identity_center_instance_arn ?rd = None"
    "last_name ?rd = None"
    "realm ?rd = None"
    by (simp_all add: exampleData_def)
  have r: "CreateAccountSubscriptionInput.AwsAccountId (createInput ?ext ?meta ?rd) = Some ''123456789012''"
    "CreateAccountSubscriptionInput.AccountName (createInput ?ext ?meta ?rd) = Some ''acme''"
    "AuthenticationMethod (createInput ?ext ?meta ?rd) = ''IAM_IDENTITY_CENTER''"
    "CreateAccountSubscriptionInput.Edition (createInput ?ext ?meta ?rd) = ''ENTERPRISE''"
    "CreateAccountSubscriptionInput.NotificationEmail (createInput ?ext ?meta ?rd) = Some ''a@b.com''"
    unfolding createInput_def Let_def
    by (simp_all add: setString_preserves setList_preserves createAwsAccountId_def example_defs)
  from createInput_omits_absent_optional_fields [OF h, of ?ext ?meta] h r show ?thesis
    by (cases "createInput ?ext ?meta ?rd") simp
qed

text \<open>
  Claim C6. When the remote create call returns an error, a nil output or an output
  without signup response, Create returns one diagnostic of action "creating", the id is
  what it was before the call, and the create call is the only call made. After a
  non-empty successful response the id is assigned before the wait begins: the next call
  is the wait, made with the account id of the request; when the wait fails, the state
  Create returns is the one the wait ran in, and its id is that account id; when the wait
  succeeds, Create continues with Read on the data holding that id, and on a resource
  marked new the id is that account id at the end.
\<close>

theorem create_failure_leaves_id_unset:
  "(CreateAccountSubscription (QuickSightClient meta) (createInput ext meta (d s)) = (out, err)
      \<and> (err \<noteq> None \<or> out = None \<or> Option.bind out SignupResponse = None) \<longrightarrow>
      resourceAccountSubscriptionCreate ext meta s =
        (logCall (CallCreateAccountSubscription (createInput ext meta (d s))) s,
         Return [DiagError names_QuickSight ErrActionCreating ResNameAccountSubscription
                   (Get_string (account_name (d s)))
                   (case err of Some e \<Rightarrow> e | None \<Rightarrow> ErrorsNew ''empty output'')])
      \<and> Id (d (fst (resourceAccountSubscriptionCreate ext meta s))) = Id (d s)
      \<and> calls (fst (resourceAccountSubscriptionCreate ext meta s)) =
          calls s @ [CallCreateAccountSubscription (createInput ext meta (d s))])
   \<and> (CreateAccountSubscription (QuickSightClient metaB) (createInput extB metaB (d sB)) = (Some resp, None)
      \<and> SignupResponse resp \<noteq> None \<longrightarrow>
      take (length (calls sB) + 2) (calls (fst (resourceAccountSubscriptionCreate extB metaB sB))) =
        calls sB @ [CallCreateAccountSubscription (createInput extB metaB (d sB)),
                    CallWaitCreated (createAwsAccountId metaB (d sB))])
   \<and> (CreateAccountSubscription (QuickSightClient metaC) (createInput extC metaC (d sC)) = (Some respC, None)
      \<and> SignupResponse respC \<noteq> None
      \<and> snd (waitAccountSubscriptionCreated extC (QuickSightClient metaC)
               (createAwsAccountId metaC (d sC)) (TimeoutCreate (d sC))) = Some e \<longrightarrow>
      fst (resourceAccountSubscriptionCreate extC metaC sC) =
        logCall (CallWaitCreated (createAwsAccountId metaC (d sC)))
          (SetId (createAwsAccountId metaC (d sC))
             (logCall (CallCreateAccountSubscription (createInput extC metaC (d sC))) sC))
      \<and> Id (d (fst (resourceAccountSubscriptionCreate extC metaC sC))) = createAwsAccountId metaC (d sC))
   \<and> (CreateAccountSubscription (QuickSightClient metaD) (createInput extD metaD (d sD)) = (Some respD, None)
      \<and> SignupResponse respD \<noteq> None
      \<and> snd (waitAccountSubscriptionCreated extD (QuickSightClient metaD)
               (createAwsAccountId metaD (d sD)) (TimeoutCreate (d sD))) = None \<longrightarrow>
      resourceAccountSubscriptionCreate extD metaD sD =
        resourceAccountSubscriptionRead extD metaD
          (logCall (CallWaitCreated (createAwsAccountId metaD (d sD)))
             (SetId (createAwsAccountId metaD (d sD))
                (logCall (CallCreateAccountSubscription (createInput extD metaD (d sD))) sD)))
      \<and> Id (d (logCall (CallWaitCreated (createAwsAccountId metaD (d sD)))
             (SetId (createAwsAccountId metaD (d sD))
                (logCall (CallCreateAccountSubscription (createInput extD metaD (d sD))) sD))))
          = createAwsAccountId metaD (d sD)
      \<and> (IsNewResource (d sD) \<longrightarrow>
           Id (d (fst (resourceAccountSubscriptionCreate extD metaD sD))) = createAwsAccountId metaD (d sD)))"
proof (intro conjI impI)
  assume a: "CreateAccountSubscription (QuickSightClient meta) (createInput ext meta (d s)) = (out, err)
      \<and> (err \<noteq> None \<or> out = None \<or> Option.bind out SignupResponse = None)"
  have e: "resourceAccountSubscriptionCreate ext meta s =
        (logCall (CallCreateAccountSubscription (createInput ext meta (d s))) s,
         Return [DiagError names_QuickSight ErrActionCreating ResNameAccountSubscription
                   (Get_string (account_name (d s)))
                   (case err of Some e \<Rightarrow> e | None \<Rightarrow> ErrorsNew ''empty output'')])"
  proof (cases err)
    case (Some e)
    with a create_failed_call [of meta ext s out e] show ?thesis by simp
  next
    case None
    with a create_empty_output [of meta ext s out] show ?thesis by simp
  qed
  then show "resourceAccountSubscriptionCreate ext meta s =
        (logCall (CallCreateAccountSubscription (createInput ext meta (d s))) s,
         Return [DiagError names_QuickSight ErrActionCreating ResNameAccountSubscription
                   (Get_string (account_name (d s)))
                   (case err of Some e \<Rightarrow> e | None \<Rightarrow> ErrorsNew ''empty output'')])" .
  from e show "Id (d (fst (resourceAccountSubscriptionCreate ext meta s))) = Id (d s)"
    by (simp add: logCall_def)
  from e show "calls (fst (resourceAccountSubscriptionCreate ext meta s)) =
          calls s @ [CallCreateAccountSubscription (createInput ext meta (d s))]"
    by (simp add: logCall_def)
next
  assume b: "CreateAccountSubscription (QuickSightClient metaB) (createInput extB metaB (d sB)) = (Some resp, None)
      \<and> SignupResponse resp \<noteq> None"
  show "take (length (calls sB) + 2) (calls (fst (resourceAccountSubscriptionCreate extB metaB sB))) =
        calls sB @ [CallCreateAccountSubscription (createInput extB metaB (d sB)),
                    CallWaitCreated (createAwsAccountId metaB (d sB))]"
  proof (cases "snd (waitAccountSubscriptionCreated extB (QuickSightClient metaB)
                (createAwsAccountId metaB (d sB)) (TimeoutCreate (d sB)))")
    case None
    from create_read_back [of metaB extB sB resp] b None
    show ?thesis by (simp add: read_calls logCall_def SetId_def)
  next
    case (Some e)
    from create_wait_failed [of metaB extB sB resp e] b Some
    show ?thesis by (simp add: logCall_def SetId_def)
  qed
next
  assume c: "CreateAccountSubscription (QuickSightClient metaC) (createInput extC metaC (d sC)) = (Some respC, None)
      \<and> SignupResponse respC \<noteq> None
      \<and> snd (waitAccountSubscriptionCreated extC (QuickSightClient metaC)
               (createAwsAccountId metaC (d sC)) (TimeoutCreate (d sC))) = Some e"
  from c create_wait_failed [of metaC extC sC respC e]
  have w: "resourceAccountSubscriptionCreate extC metaC sC =
           (logCall (CallWaitCreated (createAwsAccountId metaC (d sC)))
              (SetId (createAwsAccountId metaC (d sC))
                 (logCall (CallCreateAccountSubscription (createInput extC metaC (d sC))) sC)),
            Return [DiagError names_QuickSight ErrActionWaitingForCreation ResNameAccountSubscription
                      (createAwsAccountId metaC (d sC)) e])"
    by simp
  show "fst (resourceAccountSubscriptionCreate extC metaC sC) =
        logCall (CallWaitCreated (createAwsAccountId metaC (d sC)))
          (SetId (createAwsAccountId metaC (d sC))
             (logCall (CallCreateAccountSubscription (createInput extC metaC (d sC))) sC))"
    unfolding w by simp
  show "Id (d (fst (resourceAccountSubscriptionCreate extC metaC sC))) = createAwsAccountId metaC (d sC)"
    unfolding w by (simp add: logCall_def SetId_def)
next
  assume dd: "CreateAccountSubscription (QuickSightClient metaD) (createInput extD metaD (d sD)) = (Some respD, None)
      \<and> SignupResponse respD \<noteq> None
      \<and> snd (waitAccountSubscriptionCreated extD (QuickSightClient metaD)
               (createAwsAccountId metaD (d sD)) (TimeoutCreate (d sD))) = None"
  from dd create_read_back [of metaD extD sD respD]
  show "resourceAccountSubscriptionCreate extD metaD sD =
        resourceAccountSubscriptionRead extD metaD
          (logCall (CallWaitCreated (createAwsAccountId metaD (d sD)))
             (SetId (createAwsAccountId metaD (d sD))
                (logCall (CallCreateAccountSubscription (createInput extD metaD (d sD))) sD)))"
    by simp
  show "Id (d (logCall (CallWaitCreated (createAwsAccountId metaD (d sD)))
             (SetId (createAwsAccountId metaD (d sD))
                (logCall (CallCreateAccountSubscription (createInput extD metaD (d sD))) sD))))
          = createAwsAccountId metaD (d sD)"
    by (simp add: logCall_def SetId_def)
next
  assume dd: "CreateAccountSubscription (QuickSightClient metaD) (createInput extD metaD (d sD)) = (Some respD, None)
      \<and> SignupResponse respD \<noteq> None
      \<and> snd (waitAccountSubscriptionCreated extD (QuickSightClient metaD)
               (createAwsAccountId metaD (d sD)) (TimeoutCreate (d sD))) = None"
    and n: "IsNewResource (d sD)"
  from dd n create_new_sets_id [of metaD extD sD respD]
  show "Id (d (fst (resourceAccountSubscriptionCreate extD metaD sD))) = createAwsAccountId metaD (d sD)"
    by simp
qed

theorem create_failure_leaves_id_unset_witness:
  "CreateAccountSubscription
     (QuickSightClient (exampleMeta (exampleClient (None, Some (OtherFault ''AccessDeniedException'')) okDescribe None)))
     (createInput (exampleExternals (None, None))
        (exampleMeta (exampleClient (None, Some (OtherFault ''AccessDeniedException'')) okDescribe None))
        (d (exampleState [] True None)))
     = (None, Some (OtherFault ''AccessDeniedException''))
   \<and> snd (resourceAccountSubscriptionCreate (exampleExternals (None, None))
        (exampleMeta (exampleClient (None, Some (OtherFault ''AccessDeniedException'')) okDescribe None))
        (exampleState [] True None))
      = Return [DiagError ''QuickSight'' ErrActionCreating ''Account Subscription'' ''acme''
                  (OtherFault ''AccessDeniedException'')]
   \<and> Id (d (fst (resourceAccountSubscriptionCreate (exampleExternals (None, None))
        (exampleMeta (exampleClient (None, Some (OtherFault ''AccessDeniedException'')) okDescribe None))
        (exampleState [] True None)))) = []
   \<and> take 2 (calls (fst (resourceAccountSubscriptionCreate (exampleExternals (None, None))
        (exampleMeta (exampleClient okCreate okDescribe None)) (exampleState [] True None))))
      = [CallCreateAccountSubscription
           (createInput (exampleExternals (None, None))
              (exampleMeta (exampleClient okCreate okDescribe None)) (d (exampleState [] True None))),
         CallWaitCreated ''123456789012'']
   \<and> Id (d (exampleState [] True None)) = []
   \<and> snd (waitAccountSubscriptionCreated (exampleExternals (None, Some (OtherFault ''timeout'')))
          (QuickSightClient (exampleMeta (exampleClient okCreate okDescribe None)))
          ''123456789012'' 600) = Some (OtherFault ''timeout'')
   \<and> Id (d (fst (resourceAccountSubscriptionCreate (exampleExternals (None, Some (OtherFault ''timeout'')))
        (exampleMeta (exampleClient okCreate okDescribe None)) (exampleState [] True None))))
      = ''123456789012''
   \<and> snd (waitAccountSubscriptionCreated (exampleExternals (None, None))
          (QuickSightClient (exampleMeta (exampleClient okCreate okDescribe None)))
          ''123456789012'' 600) = None
   \<and> IsNewResource (d (exampleState [] True None))
   \<and> Id (d (fst (resourceAccountSubscriptionCreate (exampleExternals (None, None))
        (exampleMeta (exampleClient okCreate okDescribe None)) (exampleState [] True None))))
      = ''123456789012''"
proof -
  let ?ext = "exampleExternals (None, None)"
  let ?extC = "exampleExternals (None, Some (OtherFault ''timeout''))"
  let ?meta = "exampleMeta (exampleClient (None, Some (OtherFault ''AccessDeniedException'')) okDescribe None)"
  let ?metaB = "exampleMeta (exampleClient okCreate okDescribe None)"
  let ?s = "exampleState [] True None"
  let ?resp = "\<lparr>SignupResponse = Some \<lparr>accountName = Some ''acme''\<rparr>\<rparr>"
  have h1: "CreateAccountSubscription (QuickSightClient ?meta) (createInput ?ext ?meta (d ?s))
              = (None, Some (OtherFault ''AccessDeniedException''))"
    by (simp add: exampleMeta_def exampleClient_def)
  have h2: "CreateAccountSubscription (QuickSightClient ?metaB) (createInput x ?metaB (d ?s))
              = (Some ?resp, None)" for x
    by (simp add: exampleMeta_def exampleClient_def okCreate_def)
  have h3: "SignupResponse ?resp \<noteq> None" by simp
  have a: "createAwsAccountId ?metaB (d ?s) = ''123456789012''" "TimeoutCreate (d ?s) = 600"
    by (simp_all add: createAwsAccountId_def example_defs)
  have b: "Id (d ?s) = []" "calls ?s = []" "Get_string (account_name (d ?s)) = ''acme''"
    "IsNewResource (d ?s)"
    by (simp_all add: example_defs)
  have h4: "snd (waitAccountSubscriptionCreated ?extC (QuickSightClient ?metaB)
               ''123456789012'' 600) = Some (OtherFault ''timeout'')"
    by (simp add: waitAccountSubscriptionCreated_def exampleExternals_def)
  have h5: "snd (waitAccountSubscriptionCreated ?ext (QuickSightClient ?metaB)
               ''123456789012'' 600) = None"
    by (simp add: waitAccountSubscriptionCreated_def exampleExternals_def)
  have h4': "snd (waitAccountSubscriptionCreated ?extC (QuickSightClient ?metaB)
               (createAwsAccountId ?metaB (d ?s)) (TimeoutCreate (d ?s))) = Some (OtherFault ''timeout'')"
    using h4 by (simp add: a)
  have h5': "snd (waitAccountSubscriptionCreated ?ext (QuickSightClient ?metaB)
               (createAwsAccountId ?metaB (d ?s)) (TimeoutCreate (d ?s))) = None"
    using h5 by (simp add: a)
  have h0: "Some (OtherFault ''AccessDeniedException'') \<noteq> None" by simp
  note t = create_failure_leaves_id_unset [where meta = ?meta and ext = ?ext and s = ?s and out = None
             and err = "Some (OtherFault ''AccessDeniedException'')"
             and metaB = ?metaB and extB = ?ext and sB = ?s and resp = ?resp
             and metaC = ?metaB and extC = ?extC and sC = ?s and respC = ?resp
             and e = "OtherFault ''timeout''"
             and metaD = ?metaB and extD = ?ext and sD = ?s and respD = ?resp]
  from t h1 h0 have f0: "resourceAccountSubscriptionCreate ?ext ?meta ?s =
        (logCall (CallCreateAccountSubscription (createInput ?ext ?meta (d ?s))) ?s,
         Return [DiagError names_QuickSight ErrActionCreating ResNameAccountSubscription
                   (Get_string (account_name (d ?s)))
                   (case Some (OtherFault ''AccessDeniedException'') of Some e \<Rightarrow> e
                    | None \<Rightarrow> ErrorsNew ''empty output'')])"
    and f2: "Id (d (fst (resourceAccountSubscriptionCreate ?ext ?meta ?s))) = Id (d ?s)"
    by blast+
  from t h2 [of ?ext] h3 have g0: "take (length (calls ?s) + 2)
        (calls (fst (resourceAccountSubscriptionCreate ?ext ?metaB ?s))) =
        calls ?s @ [CallCreateAccountSubscription (createInput ?ext ?metaB (d ?s)),
                    CallWaitCreated (createAwsAccountId ?metaB (d ?s))]"
    by blast
  from t h2 [of ?extC] h3 h4'
  have k0: "Id (d (fst (resourceAccountSubscriptionCreate ?extC ?metaB ?s))) = createAwsAccountId ?metaB (d ?s)"
    by blast
  from t h2 [of ?ext] h3 h5' b(4)
  have l0: "Id (d (fst (resourceAccountSubscriptionCreate ?ext ?metaB ?s))) = createAwsAccountId ?metaB (d ?s)"
    by blast
  have f1: "snd (resourceAccountSubscriptionCreate ?ext ?meta ?s)
      = Return [DiagError ''QuickSight'' ErrActionCreating ''Account Subscription'' ''acme''
                  (OtherFault ''AccessDeniedException'')]"
    unfolding f0 by (simp add: b names_QuickSight_def ResNameAccountSubscription_def)
  have f3: "Id (d (fst (resourceAccountSubscriptionCreate ?ext ?meta ?s))) = []"
    using f2 by (simp add: b)
  have g: "take 2 (calls (fst (resourceAccountSubscriptionCreate ?ext ?metaB ?s))) =
        [CallCreateAccountSubscription (createInput ?ext ?metaB (d ?s)), CallWaitCreated ''123456789012'']"
    using g0 by (simp add: a b numeral_2_eq_2)
  have k: "Id (d (fst (resourceAccountSubscriptionCreate ?extC ?metaB ?s))) = ''123456789012''"
    using k0 by (simp add: a)
  have l: "Id (d (fst (resourceAccountSubscriptionCreate ?ext ?metaB ?s))) = ''123456789012''"
    using l0 by (simp add: a)
  from h1 f1 f3 g b(1) h4 k h5 b(4) l show ?thesis by blast
qed

text \<open>
  Claim C3, as stated: every Create invocation ends with a read-back, also when the wait
  for the created status fails. It does not: when the wait fails, Create returns the
  waiting-for-creation diagnostic and no describe call is made.
\<close>

theorem create_wait_failure_skips_read_back:
  "snd (resourceAccountSubscriptionCreate (exampleExternals (None, Some (OtherFault ''timeout'')))
          (exampleMeta (exampleClient okCreate okDescribe None)) (exampleState [] True None))
     = Return [DiagError ''QuickSight'' ErrActionWaitingForCreation ''Account Subscription''
                 ''123456789012'' (OtherFault ''timeout'')]
   \<and> \<not> list_ex isDescribeCall
        (calls (fst (resourceAccountSubscriptionCreate
           (exampleExternals (None, Some (OtherFault ''timeout'')))
           (exampleMeta (exampleClient okCreate okDescribe None)) (exampleState [] True None))))"
proof -
  let ?ext = "exampleExternals (None, Some (OtherFault ''timeout''))"
  let ?meta = "exampleMeta (exampleClient okCreate okDescribe None)"
  let ?s = "exampleState [] True None"
  have a: "createAwsAccountId ?meta (d ?s) = ''123456789012''"
    by (simp add: createAwsAccountId_def example_defs)
  have h1: "CreateAccountSubscription (QuickSightClient ?meta) (createInput ?ext ?meta (d ?s))
              = (Some \<lparr>SignupResponse = Some \<lparr>accountName = Some ''acme''\<rparr>\<rparr>, None)"
    by (simp add: exampleMeta_def exampleClient_def okCreate_def)
  have h2: "SignupResponse \<lparr>SignupResponse = Some \<lparr>accountName = Some ''acme''\<rparr>\<rparr> \<noteq> None"
    by simp
  have h3: "snd (waitAccountSubscriptionCreated ?ext (QuickSightClient ?meta)
               (createAwsAccountId ?meta (d ?s)) (TimeoutCreate (d ?s))) = Some (OtherFault ''timeout'')"
    by (simp add: waitAccountSubscriptionCreated_def exampleExternals_def)
  have c: "calls ?s = []" by (simp add: exampleState_def)
  from create_wait_failed [OF h1 h2 h3] show ?thesis
    by (simp add: a c logCall_def SetId_def names_QuickSight_def ResNameAccountSubscription_def)
qed

text \<open>
  Claim C3, amended. When the remote create call returns a non-empty successful response
  and the wait for the created status returns no error, Create ends with Read on the data
  whose id has been set, and returns what Read returns; a describe call is among the
  calls made. When the wait returns an error, Create returns the waiting-for-creation
  diagnostic and makes no describe call.
\<close>

theorem create_reads_back_after_successful_wait:
  "(CreateAccountSubscription (QuickSightClient meta) (createInput ext meta (d s)) = (Some resp, None)
      \<and> SignupResponse resp \<noteq> None
      \<and> snd (waitAccountSubscriptionCreated ext (QuickSightClient meta)
               (createAwsAccountId meta (d s)) (TimeoutCreate (d s))) = None \<longrightarrow>
      resourceAccountSubscriptionCreate ext meta s =
        resourceAccountSubscriptionRead ext meta
          (logCall (CallWaitCreated (createAwsAccountId meta (d s)))
             (SetId (createAwsAccountId meta (d s))
                (logCall (CallCreateAccountSubscription (createInput ext meta (d s))) s)))
      \<and> list_ex isDescribeCall (newCalls s (fst (resourceAccountSubscriptionCreate ext meta s))))
   \<and> (CreateAccountSubscription (QuickSightClient metaB) (createInput extB metaB (d sB)) = (Some respB, None)
      \<and> SignupResponse respB \<noteq> None
      \<and> snd (waitAccountSubscriptionCreated extB (QuickSightClient metaB)
               (createAwsAccountId metaB (d sB)) (TimeoutCreate (d sB))) = Some e \<longrightarrow>
      snd (resourceAccountSubscriptionCreate extB metaB sB) =
        Return [DiagError names_QuickSight ErrActionWaitingForCreation ResNameAccountSubscription
                  (createAwsAccountId metaB (d sB)) e]
      \<and> \<not> list_ex isDescribeCall (newCalls sB (fst (resourceAccountSubscriptionCreate extB metaB sB))))"
proof (intro conjI impI)
  assume a: "CreateAccountSubscription (QuickSightClient meta) (createInput ext meta (d s)) = (Some resp, None)
      \<and> SignupResponse resp \<noteq> None
      \<and> snd (waitAccountSubscriptionCreated ext (QuickSightClient meta)
               (createAwsAccountId meta (d s)) (TimeoutCreate (d s))) = None"
  from a create_read_back [of meta ext s resp]
  show r: "resourceAccountSubscriptionCreate ext meta s =
        resourceAccountSubscriptionRead ext meta
          (logCall (CallWaitCreated (createAwsAccountId meta (d s)))
             (SetId (createAwsAccountId meta (d s))
                (logCall (CallCreateAccountSubscription (createInput ext meta (d s))) s)))"
    by simp
  show "list_ex isDescribeCall (newCalls s (fst (resourceAccountSubscriptionCreate ext meta s)))"
    unfolding r by (simp add: newCalls_def read_calls logCall_def SetId_def)
next
  assume b: "CreateAccountSubscription (QuickSightClient metaB) (createInput extB metaB (d sB)) = (Some respB, None)
      \<and> SignupResponse respB \<noteq> None
      \<and> snd (waitAccountSubscriptionCreated extB (QuickSightClient metaB)
               (createAwsAccountId metaB (d sB)) (TimeoutCreate (d sB))) = Some e"
  from b create_wait_failed [of metaB extB sB respB e]
  have w: "resourceAccountSubscriptionCreate extB metaB sB =
           (logCall (CallWaitCreated (createAwsAccountId metaB (d sB)))
              (SetId (createAwsAccountId metaB (d sB))
                 (logCall (CallCreateAccountSubscription (createInput extB metaB (d sB))) sB)),
            Return [DiagError names_QuickSight ErrActionWaitingForCreation ResNameAccountSubscription
                      (createAwsAccountId metaB (d sB)) e])"
    by simp
  show "snd (resourceAccountSubscriptionCreate extB metaB sB) =
        Return [DiagError names_QuickSight ErrActionWaitingForCreation ResNameAccountSubscription
                  (createAwsAccountId metaB (d sB)) e]"
    unfolding w by simp
  show "\<not> list_ex isDescribeCall (newCalls sB (fst (resourceAccountSubscriptionCreate extB metaB sB)))"
    unfolding w by (simp add: newCalls_def logCall_def SetId_def)
qed

theorem create_reads_back_after_successful_wait_witness:
  "snd (waitAccountSubscriptionCreated (exampleExternals (None, None))
          (QuickSightClient (exampleMeta (exampleClient okCreate okDescribe None)))
          ''123456789012'' 600) = None
   \<and> resourceAccountSubscriptionCreate (exampleExternals (None, None))
        (exampleMeta (exampleClient okCreate okDescribe None)) (exampleState [] True None)
      = resourceAccountSubscriptionRead (exampleExternals (None, None))
          (exampleMeta (exampleClient okCreate okDescribe None))
          (logCall (CallWaitCreated ''123456789012'')
             (SetId ''123456789012''
                (logCall (CallCreateAccountSubscription
                   (createInput (exampleExternals (None, None))
                      (exampleMeta (exampleClient okCreate okDescribe None))
                      (d (exampleState [] True None))))
                   (exampleState [] True None))))
   \<and> list_ex isDescribeCall (newCalls (exampleState [] True None)
        (fst (resourceAccountSubscriptionCreate (exampleExternals (None, None))
           (exampleMeta (exampleClient okCreate okDescribe None)) (exampleState [] True None))))
   \<and> snd (waitAccountSubscriptionCreated (exampleExternals (None, Some (OtherFault ''timeout'')))
          (QuickSightClient (exampleMeta (exampleClient okCreate okDescribe None)))
          ''123456789012'' 600) = Some (OtherFault ''timeout'')
   \<and> \<not> list_ex isDescribeCall (newCalls (exampleState [] True None)
        (fst (resourceAccountSubscriptionCreate (exampleExternals (None, Some (OtherFault ''timeout'')))
           (exampleMeta (exampleClient okCreate okDescribe None)) (exampleState [] True None))))"
proof -
  let ?ext = "exampleExternals (None, None)"
  let ?extB = "exampleExternals (None, Some (OtherFault ''timeout''))"
  let ?meta = "exampleMeta (exampleClient okCreate okDescribe None)"
  let ?s = "exampleState [] True None"
  let ?resp = "\<lparr>SignupResponse = Some \<lparr>accountName = Some ''acme''\<rparr>\<rparr>"
  have a: "createAwsAccountId ?meta (d ?s) = ''123456789012''" "TimeoutCreate (d ?s) = 600"
    by (simp_all add: createAwsAccountId_def example_defs)
  have h1: "CreateAccountSubscription (QuickSightClient ?meta) (createInput e ?meta (d ?s))
              = (Some ?resp, None)" for e
    by (simp add: exampleMeta_def exampleClient_def okCreate_def)
  have h2: "SignupResponse ?resp \<noteq> None" by simp
  have h3: "snd (waitAccountSubscriptionCreated ?ext (QuickSightClient ?meta)
               ''123456789012'' 600) = None"
    by (simp add: waitAccountSubscriptionCreated_def exampleExternals_def)
  have h4: "snd (waitAccountSubscriptionCreated ?extB (QuickSightClient ?meta)
               ''123456789012'' 600) = Some (OtherFault ''timeout'')"
    by (simp add: waitAccountSubscriptionCreated_def exampleExternals_def)
  from create_reads_back_after_successful_wait [where ext = ?ext and meta = ?meta and s = ?s and resp = ?resp
             and extB = ?extB and metaB = ?meta and sB = ?s and respB = ?resp
             and e = "OtherFault ''timeout''", unfolded a]
    h1 [of ?ext] h1 [of ?extB] h2 h3 h4
  show ?thesis by blast
qed

end
